theory Spec2Isabelle
  imports Main
begin

section \<open>Data model\<close>

text \<open>
  The persistent records read and written by the booking routes
  (\<^verbatim>\<open>backend/src/routes/bookings.ts\<close>, \<^verbatim>\<open>backend/src/routes/admin.ts\<close>).
  A JavaScript \<^verbatim>\<open>Date\<close> is compared by its millisecond value, so an instant is an
  integer. Identifiers are strings.
\<close>

type_synonym instant = int

datatype VehicleType = CAR | VAN | SUV | TRUCK

record vehicle =
  vid :: string
  vname :: string
  vtype :: VehicleType
  licensePlate :: string
  color :: string
  isActive :: bool

record booking =
  bid :: string
  userId :: string
  vehicleId :: string
  startTime :: instant
  endTime :: instant
  title :: "string option"
  description :: "string option"

text \<open>The store holds the two tables the routes touch.\<close>

record store =
  vehicles :: "vehicle list"
  bookings :: "booking list"

text \<open>The authenticated caller, \<^verbatim>\<open>req.user\<close>.\<close>

record principal =
  uid :: string
  email :: string

text \<open>
  Every way a route refuses a request. The user routes throw \<^verbatim>\<open>AppError(message, status)\<close>,
  the admin routes answer \<^verbatim>\<open>res.status(n).json({error})\<close>:
  \<^item> \<open>BookingNotFound\<close>: 404 "Booking not found";
  \<^item> \<open>Forbidden\<close>: 403 "You can only edit your own bookings", and 403
    "Admin access required" from \<^verbatim>\<open>requireAdmin\<close>;
  \<^item> \<open>InvalidInterval\<close>: 400 "End time must be after start time";
  \<^item> \<open>PastBooking\<close>: 400 "Cannot create bookings in the past" and
    "Cannot set booking time to the past";
  \<^item> \<open>VehicleNotFound\<close>: 404 "Vehicle not found";
  \<^item> \<open>Conflict\<close>: 409, the slot is taken;
  \<^item> \<open>VehicleHasBookings n\<close>: 400 "Cannot delete vehicle with n existing bookings";
  \<^item> \<open>ServerError\<close>: 500, the \<^verbatim>\<open>catch\<close> branch of an admin route.
\<close>

datatype failure =
    BookingNotFound
  | Forbidden
  | InvalidInterval
  | PastBooking
  | VehicleNotFound
  | Conflict
  | VehicleHasBookings nat
  | ServerError

datatype decision = Admitted | Rejected failure

text \<open>A route returns its decision together with the store it leaves behind.\<close>

type_synonym result = "decision \<times> store"

section \<open>Store queries\<close>

text \<open>\<^verbatim>\<open>prisma.booking.findUnique({ where: { id } })\<close>\<close>

definition findBooking :: "store \<Rightarrow> string \<Rightarrow> booking option" where
  "findBooking db i = find (\<lambda>b. bid b = i) (bookings db)"

text \<open>\<^verbatim>\<open>prisma.vehicle.findUnique({ where: { id: vehicleId } })\<close>\<close>

definition findVehicle :: "store \<Rightarrow> string \<Rightarrow> vehicle option" where
  "findVehicle db v = find (\<lambda>x. vid x = v) (vehicles db)"

section \<open>Conflict detection of the user routes\<close>

text \<open>
  The three branches of the \<^verbatim>\<open>OR\<close> in \<^verbatim>\<open>checkBookingConflict\<close>, each a condition on
  one stored booking \<open>b\<close> for the candidate \<open>[st, en)\<close>.
\<close>

definition startsDuring :: "instant \<Rightarrow> booking \<Rightarrow> bool" where
  "startsDuring st b \<longleftrightarrow> startTime b \<le> st \<and> endTime b > st"

definition endsDuring :: "instant \<Rightarrow> booking \<Rightarrow> bool" where
  "endsDuring en b \<longleftrightarrow> startTime b < en \<and> endTime b \<ge> en"

definition containsExisting :: "instant \<Rightarrow> instant \<Rightarrow> booking \<Rightarrow> bool" where
  "containsExisting st en b \<longleftrightarrow> startTime b \<ge> st \<and> endTime b \<le> en"

definition overlapOR :: "instant \<Rightarrow> instant \<Rightarrow> booking \<Rightarrow> bool" where
  "overlapOR st en b \<longleftrightarrow> startsDuring st b \<or> endsDuring en b \<or> containsExisting st en b"

text \<open>
  \<^verbatim>\<open>id: excludeBookingId ? { not: excludeBookingId } : undefined\<close>: the filter is dropped
  when the argument is absent or the empty string (both falsy).
\<close>

definition idFilter :: "string option \<Rightarrow> booking \<Rightarrow> bool" where
  "idFilter excludeBookingId b =
     (case excludeBookingId of
        None \<Rightarrow> True
      | Some x \<Rightarrow> (if x = [] then True else bid b \<noteq> x))"

definition conflictWhere :: "string \<Rightarrow> instant \<Rightarrow> instant \<Rightarrow> string option \<Rightarrow> booking \<Rightarrow> bool" where
  "conflictWhere v st en excludeBookingId b \<longleftrightarrow>
     vehicleId b = v \<and> idFilter excludeBookingId b \<and> overlapOR st en b"

definition checkBookingConflict ::
  "store \<Rightarrow> string \<Rightarrow> instant \<Rightarrow> instant \<Rightarrow> string option \<Rightarrow> bool" where
  "checkBookingConflict db v st en excludeBookingId =
     (find (conflictWhere v st en excludeBookingId) (bookings db) \<noteq> None)"

section \<open>Conflict detection of the admin route\<close>

text \<open>
  The \<^verbatim>\<open>where\<close> clause of \<^verbatim>\<open>PUT /bookings/:id\<close> in \<^verbatim>\<open>admin.ts\<close>:
  \<^verbatim>\<open>startTime: { lt: new Date(endTime) }, endTime: { gt: new Date(startTime) }\<close>.
\<close>

definition adminOverlap :: "instant \<Rightarrow> instant \<Rightarrow> booking \<Rightarrow> bool" where
  "adminOverlap st en b \<longleftrightarrow> startTime b < en \<and> endTime b > st"

definition adminConflictWhere :: "string \<Rightarrow> string \<Rightarrow> instant \<Rightarrow> instant \<Rightarrow> booking \<Rightarrow> bool" where
  "adminConflictWhere i v st en b \<longleftrightarrow> bid b \<noteq> i \<and> vehicleId b = v \<and> adminOverlap st en b"

definition adminConflict :: "store \<Rightarrow> string \<Rightarrow> string \<Rightarrow> instant \<Rightarrow> instant \<Rightarrow> bool" where
  "adminConflict db i v st en = (find (adminConflictWhere i v st en) (bookings db) \<noteq> None)"

section \<open>User routes\<close>

text \<open>
  The body of \<^verbatim>\<open>POST /api/bookings\<close> and \<^verbatim>\<open>PUT /api/bookings/:id\<close> after the
  \<^verbatim>\<open>express-validator\<close> gate: the vehicle id is a string and both times are parsed dates.
\<close>

record bookingRequest =
  reqVehicleId :: string
  reqStartTime :: instant
  reqEndTime :: instant
  reqTitle :: "string option"
  reqDescription :: "string option"

text \<open>\<^verbatim>\<open>title || null\<close>: an absent or empty text is stored as null.\<close>

definition orNull :: "string option \<Rightarrow> string option" where
  "orNull t = (case t of None \<Rightarrow> None | Some s \<Rightarrow> (if s = [] then None else Some s))"

text \<open>
  \<^verbatim>\<open>POST /api/bookings\<close>. \<open>now\<close> is the value of \<^verbatim>\<open>new Date()\<close> read by the handler and
  \<open>newId\<close> the identifier the database gives the new row.
\<close>

definition createBooking ::
  "store \<Rightarrow> principal \<Rightarrow> bookingRequest \<Rightarrow> instant \<Rightarrow> string \<Rightarrow> result" where
  "createBooking db user req now newId =
     (let start = reqStartTime req; en = reqEndTime req in
      if en \<le> start then (Rejected InvalidInterval, db)
      else if start < now then (Rejected PastBooking, db)
      else (case findVehicle db (reqVehicleId req) of
              None \<Rightarrow> (Rejected VehicleNotFound, db)
            | Some _ \<Rightarrow>
                if checkBookingConflict db (reqVehicleId req) start en None
                then (Rejected Conflict, db)
                else (Admitted,
                      db\<lparr>bookings := bookings db @
                         [\<lparr>bid = newId, userId = uid user, vehicleId = reqVehicleId req,
                           startTime = start, endTime = en,
                           title = orNull (reqTitle req),
                           description = orNull (reqDescription req)\<rparr>]\<rparr>)))"

text \<open>The \<^verbatim>\<open>data\<close> of \<^verbatim>\<open>prisma.booking.update\<close> in the user route.\<close>

definition applyRequest :: "bookingRequest \<Rightarrow> booking \<Rightarrow> booking" where
  "applyRequest req b =
     b\<lparr>vehicleId := reqVehicleId req, startTime := reqStartTime req, endTime := reqEndTime req,
       title := orNull (reqTitle req), description := orNull (reqDescription req)\<rparr>"

text \<open>\<^verbatim>\<open>PUT /api/bookings/:id\<close>, with \<open>i\<close> the route parameter.\<close>

definition updateBooking ::
  "store \<Rightarrow> principal \<Rightarrow> string \<Rightarrow> bookingRequest \<Rightarrow> instant \<Rightarrow> result" where
  "updateBooking db user i req now =
     (case findBooking db i of
        None \<Rightarrow> (Rejected BookingNotFound, db)
      | Some existingBooking \<Rightarrow>
          if userId existingBooking \<noteq> uid user then (Rejected Forbidden, db)
          else
            (let start = reqStartTime req; en = reqEndTime req in
             if en \<le> start then (Rejected InvalidInterval, db)
             else if start < now then (Rejected PastBooking, db)
             else (case findVehicle db (reqVehicleId req) of
                     None \<Rightarrow> (Rejected VehicleNotFound, db)
                   | Some _ \<Rightarrow>
                       if checkBookingConflict db (reqVehicleId req) start en (Some i)
                       then (Rejected Conflict, db)
                       else (Admitted,
                             db\<lparr>bookings :=
                                  map (\<lambda>b. if bid b = i then applyRequest req b else b)
                                      (bookings db)\<rparr>))))"

section \<open>Admin routes\<close>

definition ADMIN_EMAILS :: "string list" where
  "ADMIN_EMAILS = [''admin@example.com'', ''demo@example.com'']"

text \<open>\<^verbatim>\<open>requireAdmin\<close>, applied to every admin route by \<^verbatim>\<open>router.use\<close>.\<close>

definition requireAdmin :: "principal \<Rightarrow> bool" where
  "requireAdmin user \<longleftrightarrow> email user \<in> set ADMIN_EMAILS"

text \<open>
  A time field of the admin \<^verbatim>\<open>PUT /bookings/:id\<close> body. No validator runs on that body, and
  the route tests each field for truthiness before it calls \<^verbatim>\<open>new Date\<close> on it:
  \<^item> \<open>Falsy\<close>: the field is \<^verbatim>\<open>undefined\<close>, \<^verbatim>\<open>null\<close>, \<^verbatim>\<open>false\<close>, the number
    \<^verbatim>\<open>0\<close> or the empty string;
  \<^item> \<open>Parsed t\<close>: a truthy value that \<^verbatim>\<open>new Date\<close> turns into the instant \<open>t\<close>;
  \<^item> \<open>Invalid\<close>: a truthy value that \<^verbatim>\<open>new Date\<close> turns into an Invalid Date.
\<close>

datatype timeField = Falsy | Parsed instant | Invalid

text \<open>
  The body of the admin route. \<open>aVehicleId\<close> is \<open>None\<close> when the field is
  \<^verbatim>\<open>undefined\<close>, \<^verbatim>\<open>null\<close>, \<^verbatim>\<open>false\<close> or \<^verbatim>\<open>0\<close>, and otherwise the string
  sent, of which the empty one is falsy as well. \<open>aTitle\<close> and
  \<open>aDescription\<close> distinguish \<^verbatim>\<open>undefined\<close> (\<open>None\<close>) from \<^verbatim>\<open>null\<close> (\<open>Some None\<close>).
\<close>

record adminBookingRequest =
  aVehicleId :: "string option"
  aStartTime :: timeField
  aEndTime :: timeField
  aTitle :: "string option option"
  aDescription :: "string option option"

text \<open>
  An Invalid Date never reaches the table: it is truthy, so it is either part of the conflict
  query or part of the \<^verbatim>\<open>data\<close> of the update, and Prisma throws on it in both places.
\<close>

definition adminInvalidDate :: "adminBookingRequest \<Rightarrow> bool" where
  "adminInvalidDate req \<longleftrightarrow> aStartTime req = Invalid \<or> aEndTime req = Invalid"

text \<open>
  \<^verbatim>\<open>if (vehicleId && startTime && endTime) { conflict = findFirst(...) }\<close>: the query runs
  only when all three fields are truthy.
\<close>

definition adminHasConflict :: "store \<Rightarrow> string \<Rightarrow> adminBookingRequest \<Rightarrow> bool" where
  "adminHasConflict db i req =
     (case aVehicleId req of
        None \<Rightarrow> False
      | Some v \<Rightarrow>
          (case aStartTime req of
             Falsy \<Rightarrow> False
           | Invalid \<Rightarrow> False
           | Parsed st \<Rightarrow>
               (case aEndTime req of
                  Falsy \<Rightarrow> False
                | Invalid \<Rightarrow> False
                | Parsed en \<Rightarrow> v \<noteq> [] \<and> adminConflict db i v st en)))"

text \<open>
  The \<^verbatim>\<open>data\<close> of the admin update,
  \<^verbatim>\<open>...(startTime && { startTime: new Date(startTime) })\<close>: only truthy fields are written.
\<close>

definition adminApply :: "adminBookingRequest \<Rightarrow> booking \<Rightarrow> booking" where
  "adminApply req b =
     b\<lparr>vehicleId := (case aVehicleId req of
                        None \<Rightarrow> vehicleId b
                      | Some v \<Rightarrow> (if v = [] then vehicleId b else v)),
       startTime := (case aStartTime req of Parsed t \<Rightarrow> t | _ \<Rightarrow> startTime b),
       endTime := (case aEndTime req of Parsed t \<Rightarrow> t | _ \<Rightarrow> endTime b),
       title := (case aTitle req of None \<Rightarrow> title b | Some t \<Rightarrow> t),
       description := (case aDescription req of None \<Rightarrow> description b | Some d \<Rightarrow> d)\<rparr>"

text \<open>
  Modelled from the spec: \<^verbatim>\<open>schema.prisma\<close> is not among the sources. The booking table
  refers to the vehicle table (the routes read the relation with
  \<^verbatim>\<open>include: { vehicle: true }\<close>, and the spec requires \<^verbatim>\<open>vehicleId\<close> to reference an
  existing vehicle), so writing a vehicle id that names no vehicle makes
  \<^verbatim>\<open>prisma.booking.update\<close> throw.
\<close>

definition vehicleRefOk :: "store \<Rightarrow> adminBookingRequest \<Rightarrow> bool" where
  "vehicleRefOk db req =
     (case aVehicleId req of
        None \<Rightarrow> True
      | Some v \<Rightarrow> (if v = [] then True else findVehicle db v \<noteq> None))"

text \<open>
  Admin \<^verbatim>\<open>PUT /bookings/:id\<close> behind \<^verbatim>\<open>requireAdmin\<close>.
  \<^verbatim>\<open>prisma.booking.update\<close> throws when no row has the id; the \<^verbatim>\<open>catch\<close> answers 500
  to everything thrown.
\<close>

definition adminUpdateBooking ::
  "store \<Rightarrow> principal \<Rightarrow> string \<Rightarrow> adminBookingRequest \<Rightarrow> result" where
  "adminUpdateBooking db user i req =
     (if \<not> requireAdmin user then (Rejected Forbidden, db)
      else if adminInvalidDate req then (Rejected ServerError, db)
      else if adminHasConflict db i req then (Rejected Conflict, db)
      else (case findBooking db i of
              None \<Rightarrow> (Rejected ServerError, db)
            | Some _ \<Rightarrow>
                if \<not> vehicleRefOk db req then (Rejected ServerError, db)
                else (Admitted,
                      db\<lparr>bookings :=
                           map (\<lambda>b. if bid b = i then adminApply req b else b)
                               (bookings db)\<rparr>)))"

text \<open>\<^verbatim>\<open>prisma.booking.count({ where: { vehicleId: id } })\<close>\<close>

definition bookingCount :: "store \<Rightarrow> string \<Rightarrow> nat" where
  "bookingCount db i = length (filter (\<lambda>b. vehicleId b = i) (bookings db))"

text \<open>
  Admin \<^verbatim>\<open>DELETE /vehicles/:id\<close> behind \<^verbatim>\<open>requireAdmin\<close>.
  \<^verbatim>\<open>prisma.vehicle.delete\<close> throws when no vehicle has the id; the \<^verbatim>\<open>catch\<close> answers 500.
\<close>

definition adminDeleteVehicle :: "store \<Rightarrow> principal \<Rightarrow> string \<Rightarrow> result" where
  "adminDeleteVehicle db user i =
     (if \<not> requireAdmin user then (Rejected Forbidden, db)
      else if bookingCount db i > 0 then (Rejected (VehicleHasBookings (bookingCount db i)), db)
      else (case findVehicle db i of
              None \<Rightarrow> (Rejected ServerError, db)
            | Some _ \<Rightarrow>
                (Admitted, db\<lparr>vehicles := filter (\<lambda>x. vid x \<noteq> i) (vehicles db)\<rparr>)))"

section \<open>The conflict relation between two bookings\<close>

text \<open>
  \<open>conflicts A B\<close> is the answer of \<^verbatim>\<open>checkBookingConflict\<close> for the candidate \<open>A\<close> when
  \<open>B\<close> is the only stored booking.
\<close>

definition conflicts :: "booking \<Rightarrow> booking \<Rightarrow> bool" where
  "conflicts A B =
     checkBookingConflict \<lparr>vehicles = [], bookings = [B]\<rparr>
       (vehicleId A) (startTime A) (endTime A) None"

section \<open>A small fleet\<close>

text \<open>Concrete records on which the theorems below are exercised.\<close>

definition van :: vehicle where
  "van = \<lparr>vid = ''v1'', vname = ''City Van'', vtype = VAN, licensePlate = ''VAN-001'',
           color = ''#06b6d4'', isActive = True\<rparr>"

definition parkedTruck :: vehicle where
  "parkedTruck = \<lparr>vid = ''v2'', vname = ''Old Truck'', vtype = TRUCK, licensePlate = ''TRK-002'',
                   color = ''#f59e0b'', isActive = False\<rparr>"

definition alice :: principal where
  "alice = \<lparr>uid = ''u1'', email = ''alice@example.com''\<rparr>"

definition bob :: principal where
  "bob = \<lparr>uid = ''u2'', email = ''bob@example.com''\<rparr>"

definition admin :: principal where
  "admin = \<lparr>uid = ''u0'', email = ''admin@example.com''\<rparr>"

definition morning :: booking where
  "morning = \<lparr>bid = ''b1'', userId = ''u1'', vehicleId = ''v1'', startTime = 100, endTime = 200,
               title = Some ''Morning commute'', description = None\<rparr>"

definition noon :: booking where
  "noon = \<lparr>bid = ''b2'', userId = ''u2'', vehicleId = ''v1'', startTime = 200, endTime = 300,
            title = Some ''Client meeting'', description = None\<rparr>"

definition fleet :: store where
  "fleet = \<lparr>vehicles = [van, parkedTruck], bookings = [morning, noon]\<rparr>"

text \<open>A user request for the vehicle \<open>v\<close> and the interval \<open>[st, en)\<close>.\<close>

definition request :: "string \<Rightarrow> instant \<Rightarrow> instant \<Rightarrow> bookingRequest" where
  "request v st en =
     \<lparr>reqVehicleId = v, reqStartTime = st, reqEndTime = en, reqTitle = None,
      reqDescription = None\<rparr>"

text \<open>An admin request that moves a booking in time, with or without naming the vehicle.\<close>

definition adminMove :: "string option \<Rightarrow> instant \<Rightarrow> instant \<Rightarrow> adminBookingRequest" where
  "adminMove v st en =
     \<lparr>aVehicleId = v, aStartTime = Parsed st, aEndTime = Parsed en, aTitle = None,
      aDescription = None\<rparr>"

section \<open>Auxiliary facts\<close>

lemmas sample_defs = van_def parkedTruck_def alice_def bob_def admin_def morning_def noon_def
  fleet_def request_def adminMove_def

lemmas route_defs = createBooking_def updateBooking_def adminUpdateBooking_def
  findBooking_def findVehicle_def checkBookingConflict_def
  conflictWhere_def idFilter_def overlapOR_def startsDuring_def endsDuring_def
  containsExisting_def adminConflict_def adminConflictWhere_def adminOverlap_def
  adminInvalidDate_def adminHasConflict_def adminApply_def vehicleRefOk_def requireAdmin_def
  ADMIN_EMAILS_def
  orNull_def applyRequest_def

text \<open>\<^verbatim>\<open>findFirst\<close> answers a row exactly when some row satisfies the \<^verbatim>\<open>where\<close> clause.\<close>

lemma find_ne_None: "find P xs \<noteq> None \<longleftrightarrow> (\<exists>x\<in>set xs. P x)"
  by (auto simp add: find_None_iff)

lemma overlapOR_iff:
  "overlapOR st en b \<longleftrightarrow>
     (startTime b \<le> st \<and> st < endTime b) \<or> (startTime b < en \<and> en \<le> endTime b)
       \<or> (st \<le> startTime b \<and> endTime b \<le> en)"
  by (auto simp add: overlapOR_def startsDuring_def endsDuring_def containsExisting_def)

lemma overlapOR_valid:
  "st < en \<Longrightarrow> startTime b < endTime b \<Longrightarrow>
     overlapOR st en b \<longleftrightarrow> (st < endTime b \<and> startTime b < en)"
  by (auto simp add: overlapOR_iff)

lemma checkBookingConflict_iff:
  "checkBookingConflict db v st en x \<longleftrightarrow> (\<exists>b\<in>set (bookings db). conflictWhere v st en x b)"
  by (simp only: checkBookingConflict_def find_ne_None)

lemma adminConflict_iff:
  "adminConflict db i v st en \<longleftrightarrow> (\<exists>b\<in>set (bookings db). adminConflictWhere i v st en b)"
  by (simp only: adminConflict_def find_ne_None)

lemma findBooking_SomeD: "findBooking db i = Some b \<Longrightarrow> b \<in> set (bookings db) \<and> bid b = i"
  by (auto simp add: findBooking_def find_Some_iff)

lemma findVehicle_flags:
  "findVehicle (db\<lparr>vehicles := map (\<lambda>x. x\<lparr>isActive := f x\<rparr>) (vehicles db)\<rparr>) v = None
     \<longleftrightarrow> findVehicle db v = None"
  by (auto simp add: findVehicle_def find_None_iff)

lemma checkBookingConflict_vehicles:
  "checkBookingConflict (db\<lparr>vehicles := vs\<rparr>) v st en x = checkBookingConflict db v st en x"
  by (simp add: checkBookingConflict_def)

lemma findBooking_vehicles: "findBooking (db\<lparr>vehicles := vs\<rparr>) i = findBooking db i"
  by (simp add: findBooking_def)

section \<open>Equivalence of the two conflict predicates\<close>

text \<open>
  C1. For a valid candidate \<open>[st, en)\<close> and a valid stored booking \<open>b\<close>, the three-branch
  disjunction of \<^verbatim>\<open>checkBookingConflict\<close> holds exactly when the two intervals intersect,
  \<open>st < endTime b \<and> startTime b < en\<close>, and so agrees with the clause of the admin route.
  On a store whose bookings are all valid, the query of the user update and the query of the
  admin update give the same answer.
\<close>

theorem conflict_predicates_agree:
  assumes "st < en"
  shows "(startTime b < endTime b \<longrightarrow>
            (overlapOR st en b \<longleftrightarrow> st < endTime b \<and> startTime b < en) \<and>
            (overlapOR st en b \<longleftrightarrow> adminOverlap st en b)) \<and>
         ((\<forall>x\<in>set (bookings db). startTime x < endTime x) \<longrightarrow> i \<noteq> [] \<longrightarrow>
            checkBookingConflict db v st en (Some i) = adminConflict db i v st en)"
proof (intro conjI impI)
  assume "startTime b < endTime b"
  with assms show "overlapOR st en b \<longleftrightarrow> st < endTime b \<and> startTime b < en"
    by (rule overlapOR_valid)
  then show "overlapOR st en b \<longleftrightarrow> adminOverlap st en b"
    by (auto simp add: adminOverlap_def)
next
  assume valid: "\<forall>x\<in>set (bookings db). startTime x < endTime x" and i: "i \<noteq> []"
  have "conflictWhere v st en (Some i) x \<longleftrightarrow> adminConflictWhere i v st en x"
    if "x \<in> set (bookings db)" for x
  proof -
    from that valid have "startTime x < endTime x" by blast
    with assms have "overlapOR st en x \<longleftrightarrow> adminOverlap st en x"
      by (auto simp add: overlapOR_valid adminOverlap_def)
    with i show ?thesis
      by (auto simp add: conflictWhere_def adminConflictWhere_def idFilter_def)
  qed
  then show "checkBookingConflict db v st en (Some i) = adminConflict db i v st en"
    by (simp add: checkBookingConflict_iff adminConflict_iff cong: bex_cong)
qed

theorem conflict_predicates_agree_witness:
  "(150::int) < 250 \<and> startTime noon < endTime noon \<and>
   (overlapOR 150 250 noon \<longleftrightarrow> 150 < endTime noon \<and> startTime noon < 250) \<and>
   (overlapOR 150 250 noon \<longleftrightarrow> adminOverlap 150 250 noon) \<and>
   list_all (\<lambda>x. startTime x < endTime x) (bookings fleet) \<and>
   checkBookingConflict fleet ''v1'' 150 250 (Some ''b1'') = adminConflict fleet ''b1'' ''v1'' 150 250"
proof -
  have h: "(150::int) < 250" by simp
  show ?thesis
    using conflict_predicates_agree [OF h, where b = noon and db = fleet and i = "''b1''"
        and v = "''v1''"]
    by (simp add: sample_defs adminOverlap_def)
qed

section \<open>Back-to-back bookings\<close>

text \<open>
  C2, as amended. For a valid candidate \<open>[st, en)\<close> and a stored booking \<open>b\<close> that is itself
  valid (\<open>startTime b < endTime b\<close>), if the candidate ends where \<open>b\<close> starts or starts where
  \<open>b\<close> ends, then \<open>b\<close> does not satisfy the conflict clause, and the answer of
  \<^verbatim>\<open>checkBookingConflict\<close> is the one it gives on the store without \<open>b\<close>.
\<close>

theorem back_to_back_no_conflict:
  assumes "st < en" and "startTime b < endTime b"
    and "en = startTime b \<or> st = endTime b"
  shows "\<not> conflictWhere v st en x b \<and>
         checkBookingConflict db v st en x =
           checkBookingConflict (db\<lparr>bookings := removeAll b (bookings db)\<rparr>) v st en x"
proof -
  from assms have no: "\<not> conflictWhere v st en x b"
    by (auto simp add: conflictWhere_def overlapOR_iff)
  then show ?thesis
    by (auto simp add: checkBookingConflict_iff)
qed

theorem back_to_back_no_conflict_witness:
  "(100::int) < 200 \<and> startTime noon < endTime noon \<and> 200 = startTime noon \<and>
   \<not> conflictWhere ''v1'' 100 200 None noon \<and>
   checkBookingConflict (fleet\<lparr>bookings := [noon]\<rparr>) ''v1'' 100 200 None =
     checkBookingConflict (fleet\<lparr>bookings := []\<rparr>) ''v1'' 100 200 None"
proof -
  have h1: "(100::int) < 200" by simp
  have h2: "startTime noon < endTime noon" by (simp add: noon_def)
  have h3: "200 = startTime noon \<or> 100 = endTime noon" by (simp add: noon_def)
  show ?thesis
    using back_to_back_no_conflict [OF h1 h2 h3, where v = "''v1''" and x = None
        and db = "fleet\<lparr>bookings := [noon]\<rparr>"]
    by (simp add: sample_defs)
qed

text \<open>
  C2 as stated fails when the stored booking has no length. The admin route stores such a
  booking (it never compares the two times), and a candidate that ends where it sits is then
  refused: the third branch of the \<^verbatim>\<open>OR\<close> uses \<^verbatim>\<open>gte\<close> and \<^verbatim>\<open>lte\<close>.
\<close>

theorem back_to_back_counterexample:
  "(200::int) < 300 \<and> 300 = startTime (noon\<lparr>startTime := 300, endTime := 300\<rparr>) \<and>
   adminUpdateBooking fleet admin ''b2'' (adminMove (Some ''v1'') 300 300) =
     (Admitted, fleet\<lparr>bookings := [morning, noon\<lparr>startTime := 300, endTime := 300\<rparr>]\<rparr>) \<and>
   checkBookingConflict
     (fleet\<lparr>bookings := [morning, noon\<lparr>startTime := 300, endTime := 300\<rparr>]\<rparr>)
     ''v1'' 200 300 None \<and>
   \<not> checkBookingConflict (fleet\<lparr>bookings := [morning]\<rparr>) ''v1'' 200 300 None \<and>
   createBooking (fleet\<lparr>bookings := [morning, noon\<lparr>startTime := 300, endTime := 300\<rparr>]\<rparr>)
     bob (request ''v1'' 200 300) 0 ''b3'' =
     (Rejected Conflict, fleet\<lparr>bookings := [morning, noon\<lparr>startTime := 300, endTime := 300\<rparr>]\<rparr>)"
  by (simp add: sample_defs route_defs)

section \<open>Authorisation precedes validation\<close>

text \<open>
  C3. When the caller is neither the owner of the stored booking nor an administrator, an
  update is refused with \<open>Forbidden\<close> whatever the candidate interval, the clock and the
  vehicle are: the user route refuses at the ownership check, the admin route at
  \<^verbatim>\<open>requireAdmin\<close>, and the store is left as it was.
\<close>

theorem forbidden_before_validation:
  assumes "findBooking db i = Some b" and "userId b \<noteq> uid user" and "\<not> requireAdmin user"
  shows "updateBooking db user i req now = (Rejected Forbidden, db) \<and>
         adminUpdateBooking db user i areq = (Rejected Forbidden, db)"
  using assms by (simp add: updateBooking_def adminUpdateBooking_def)

theorem forbidden_before_validation_witness:
  "findBooking fleet ''b1'' = Some morning \<and> userId morning \<noteq> uid bob \<and> \<not> requireAdmin bob \<and>
   reqEndTime (request ''v9'' 500 400) < reqStartTime (request ''v9'' 500 400) \<and>
   updateBooking fleet bob ''b1'' (request ''v9'' 500 400) 1000 = (Rejected Forbidden, fleet) \<and>
   adminUpdateBooking fleet bob ''b1'' (adminMove (Some ''v9'') 500 400)
     = (Rejected Forbidden, fleet)"
proof -
  have h1: "findBooking fleet ''b1'' = Some morning"
    by (simp add: sample_defs findBooking_def)
  have h2: "userId morning \<noteq> uid bob" by (simp add: sample_defs)
  have h3: "\<not> requireAdmin bob" by (simp add: sample_defs requireAdmin_def ADMIN_EMAILS_def)
  show ?thesis
    using h1 h2 h3
      forbidden_before_validation [OF h1 h2 h3, where req = "request ''v9'' 500 400"
        and now = 1000 and areq = "adminMove (Some ''v9'') 500 400"]
    by (simp add: request_def)
qed

section \<open>Order of the validations on creation\<close>



section \<open>A booking does not conflict with itself\<close>

text \<open>
  C5, as amended. Let \<open>X\<close> be the stored booking with the (non-empty) id \<open>i\<close>, let its owner
  send an update whose vehicle and interval are those \<open>X\<close> already has, the interval being
  valid and not in the past and the vehicle existing. Then \<open>X\<close> itself never satisfies the
  conflict clause, because the query excludes the row with id \<open>i\<close>; the decision is
  \<open>Admitted\<close> exactly when no other booking of that vehicle satisfies the three-branch
  overlap against \<open>X\<close>'s interval; and it is \<open>Admitted\<close> in particular when every other
  booking of the vehicle is valid and does not intersect \<open>X\<close>.
\<close>

theorem self_exclusion_on_update:
  assumes "findBooking db i = Some X" and "i \<noteq> []" and "userId X = uid user"
    and "reqVehicleId req = vehicleId X"
    and "reqStartTime req = startTime X" and "reqEndTime req = endTime X"
    and "startTime X < endTime X" and "now \<le> startTime X"
    and "findVehicle db (vehicleId X) \<noteq> None"
  shows "\<not> conflictWhere (vehicleId X) (startTime X) (endTime X) (Some i) X \<and>
         (fst (updateBooking db user i req now) = Admitted \<longleftrightarrow>
            (\<forall>b\<in>set (bookings db). bid b \<noteq> i \<and> vehicleId b = vehicleId X \<longrightarrow>
               \<not> overlapOR (startTime X) (endTime X) b)) \<and>
         ((\<forall>b\<in>set (bookings db). bid b \<noteq> i \<and> vehicleId b = vehicleId X \<longrightarrow>
              startTime b < endTime b \<and>
              \<not> (startTime X < endTime b \<and> startTime b < endTime X)) \<longrightarrow>
            fst (updateBooking db user i req now) = Admitted)"
proof -
  from assms(1) have X: "bid X = i" by (simp add: findBooking_SomeD)
  with assms(2) have self: "\<not> conflictWhere (vehicleId X) (startTime X) (endTime X) (Some i) X"
    by (simp add: conflictWhere_def idFilter_def)
  have chk: "checkBookingConflict db (vehicleId X) (startTime X) (endTime X) (Some i) \<longleftrightarrow>
      (\<exists>b\<in>set (bookings db). bid b \<noteq> i \<and> vehicleId b = vehicleId X \<and>
          overlapOR (startTime X) (endTime X) b)"
    using assms(2) by (auto simp add: checkBookingConflict_iff conflictWhere_def idFilter_def)
  have dec: "fst (updateBooking db user i req now) = Admitted \<longleftrightarrow>
      \<not> checkBookingConflict db (vehicleId X) (startTime X) (endTime X) (Some i)"
    using assms by (auto simp add: updateBooking_def Let_def split: option.splits)
  have iff: "fst (updateBooking db user i req now) = Admitted \<longleftrightarrow>
            (\<forall>b\<in>set (bookings db). bid b \<noteq> i \<and> vehicleId b = vehicleId X \<longrightarrow>
               \<not> overlapOR (startTime X) (endTime X) b)"
    unfolding dec chk by blast
  have "fst (updateBooking db user i req now) = Admitted"
    if h: "\<forall>b\<in>set (bookings db). bid b \<noteq> i \<and> vehicleId b = vehicleId X \<longrightarrow>
              startTime b < endTime b \<and>
              \<not> (startTime X < endTime b \<and> startTime b < endTime X)"
    unfolding iff
  proof (intro ballI impI)
    fix b assume "b \<in> set (bookings db)" and "bid b \<noteq> i \<and> vehicleId b = vehicleId X"
    with h have "startTime b < endTime b"
      and "\<not> (startTime X < endTime b \<and> startTime b < endTime X)" by blast+
    with assms(7) show "\<not> overlapOR (startTime X) (endTime X) b"
      by (simp add: overlapOR_valid)
  qed
  with self iff show ?thesis by blast
qed

theorem self_exclusion_on_update_witness:
  "findBooking fleet ''b1'' = Some morning \<and> userId morning = uid alice \<and>
   startTime morning < endTime morning \<and> 50 \<le> startTime morning \<and>
   findVehicle fleet (vehicleId morning) \<noteq> None \<and>
   bookings fleet = [morning, noon] \<and> vehicleId noon = vehicleId morning \<and>
   startTime noon < endTime noon \<and>
   \<not> (startTime morning < endTime noon \<and> startTime noon < endTime morning) \<and>
   fst (updateBooking fleet alice ''b1'' (request ''v1'' 100 200) 50) = Admitted"
proof -
  have h1: "findBooking fleet ''b1'' = Some morning"
    by (simp add: sample_defs findBooking_def)
  have h2: "''b1'' \<noteq> []" by simp
  have h3: "userId morning = uid alice" by (simp add: sample_defs)
  have h4: "reqVehicleId (request ''v1'' 100 200) = vehicleId morning"
    by (simp add: sample_defs)
  have h5: "reqStartTime (request ''v1'' 100 200) = startTime morning"
    by (simp add: sample_defs)
  have h6: "reqEndTime (request ''v1'' 100 200) = endTime morning"
    by (simp add: sample_defs)
  have h7: "startTime morning < endTime morning" by (simp add: sample_defs)
  have h8: "50 \<le> startTime morning" by (simp add: sample_defs)
  have h9: "findVehicle fleet (vehicleId morning) \<noteq> None"
    by (simp add: sample_defs findVehicle_def)
  have others: "\<forall>b\<in>set (bookings fleet). bid b \<noteq> ''b1'' \<and> vehicleId b = vehicleId morning \<longrightarrow>
      startTime b < endTime b \<and>
      \<not> (startTime morning < endTime b \<and> startTime b < endTime morning)"
    by (simp add: sample_defs)
  have data: "bookings fleet = [morning, noon] \<and> vehicleId noon = vehicleId morning \<and>
      startTime noon < endTime noon \<and>
      \<not> (startTime morning < endTime noon \<and> startTime noon < endTime morning)"
    by (simp add: sample_defs)
  show ?thesis
    using h1 h3 h7 h8 h9 others data
      self_exclusion_on_update [OF h1 h2 h3 h4 h5 h6 h7 h8 h9]
    by blast
qed

text \<open>
  C5 as stated fails when another booking of the vehicle overlaps \<open>X\<close>. The admin route
  moves a booking without querying for conflicts when the request does not name the vehicle;
  after that, the owner's update of \<open>X\<close> to its own interval is refused with \<open>Conflict\<close>.
\<close>

theorem self_exclusion_counterexample:
  "adminUpdateBooking fleet admin ''b2'' (adminMove None 150 250) =
     (Admitted, fleet\<lparr>bookings := [morning, noon\<lparr>startTime := 150, endTime := 250\<rparr>]\<rparr>) \<and>
   findBooking (fleet\<lparr>bookings := [morning, noon\<lparr>startTime := 150, endTime := 250\<rparr>]\<rparr>) ''b1''
     = Some morning \<and>
   userId morning = uid alice \<and> startTime morning < endTime morning \<and> 0 \<le> startTime morning \<and>
   findVehicle (fleet\<lparr>bookings := [morning, noon\<lparr>startTime := 150, endTime := 250\<rparr>]\<rparr>)
     (vehicleId morning) = Some van \<and>
   updateBooking (fleet\<lparr>bookings := [morning, noon\<lparr>startTime := 150, endTime := 250\<rparr>]\<rparr>)
     alice ''b1'' (request (vehicleId morning) (startTime morning) (endTime morning)) 0 =
     (Rejected Conflict, fleet\<lparr>bookings := [morning, noon\<lparr>startTime := 150, endTime := 250\<rparr>]\<rparr>)"
  by (simp add: sample_defs route_defs)

section \<open>The boundary of the past check\<close>

text \<open>
  C6. The past check is \<open>start < now\<close>: a candidate that starts exactly at \<open>now\<close> is not
  refused with \<open>PastBooking\<close>, by creation or by update; a candidate with \<open>end > start\<close>
  that starts before \<open>now\<close> is refused with \<open>PastBooking\<close> by creation, and by update when
  the caller owns the booking.
\<close>

theorem past_check_boundary:
  "(reqStartTime req = now \<longrightarrow>
      fst (createBooking db user req now newId) \<noteq> Rejected PastBooking \<and>
      fst (updateBooking db user i req now) \<noteq> Rejected PastBooking) \<and>
   (reqStartTime req < reqEndTime req \<and> reqStartTime req < now \<longrightarrow>
      createBooking db user req now newId = (Rejected PastBooking, db) \<and>
      (findBooking db i = Some b \<and> userId b = uid user \<longrightarrow>
         updateBooking db user i req now = (Rejected PastBooking, db)))"
  by (auto simp add: createBooking_def updateBooking_def Let_def split: option.splits if_splits)

theorem past_check_boundary_witness:
  "fst (createBooking fleet alice (request ''v2'' 400 500) 400 ''b3'') \<noteq> Rejected PastBooking \<and>
   fst (updateBooking fleet alice ''b1'' (request ''v2'' 400 500) 400) \<noteq> Rejected PastBooking \<and>
   findBooking fleet ''b1'' = Some morning \<and> userId morning = uid alice \<and>
   createBooking fleet alice (request ''v2'' 400 500) 401 ''b3'' = (Rejected PastBooking, fleet) \<and>
   updateBooking fleet alice ''b1'' (request ''v2'' 400 500) 401 = (Rejected PastBooking, fleet)"
proof -
  have h1: "findBooking fleet ''b1'' = Some morning"
    by (simp add: sample_defs findBooking_def)
  have h2: "userId morning = uid alice" by (simp add: sample_defs)
  show ?thesis
    using h1 h2
      past_check_boundary [where db = fleet and user = alice and req = "request ''v2'' 400 500"
        and now = 400 and newId = "''b3''" and i = "''b1''"]
      past_check_boundary [where db = fleet and user = alice and req = "request ''v2'' 400 500"
        and now = 401 and newId = "''b3''" and i = "''b1''" and b = morning]
    by (simp add: request_def)
qed

section \<open>What an update re-validates\<close>




section \<open>Symmetry of the conflict relation\<close>

text \<open>
  C8, as amended. For two intervals \<open>A\<close> and \<open>B\<close> on the same vehicle, each with
  \<open>start \<le> end\<close>, \<^verbatim>\<open>checkBookingConflict\<close> answers the same with \<open>A\<close> as candidate and
  \<open>B\<close> stored as with \<open>B\<close> as candidate and \<open>A\<close> stored.
\<close>

theorem conflicts_symmetric:
  assumes "vehicleId A = vehicleId B"
    and "startTime A \<le> endTime A" and "startTime B \<le> endTime B"
  shows "conflicts A B = conflicts B A"
  using assms
  by (auto simp add: conflicts_def checkBookingConflict_iff conflictWhere_def idFilter_def overlapOR_iff)

theorem conflicts_symmetric_witness:
  "vehicleId morning = vehicleId (noon\<lparr>startTime := 150\<rparr>) \<and>
   startTime morning \<le> endTime morning \<and>
   startTime (noon\<lparr>startTime := 150\<rparr>) \<le> endTime (noon\<lparr>startTime := 150\<rparr>) \<and>
   conflicts morning (noon\<lparr>startTime := 150\<rparr>) \<and>
   conflicts morning (noon\<lparr>startTime := 150\<rparr>) = conflicts (noon\<lparr>startTime := 150\<rparr>) morning"
proof -
  have h1: "vehicleId morning = vehicleId (noon\<lparr>startTime := 150\<rparr>)"
    by (simp add: sample_defs)
  have h2: "startTime morning \<le> endTime morning" by (simp add: sample_defs)
  have h3: "startTime (noon\<lparr>startTime := 150\<rparr>) \<le> endTime (noon\<lparr>startTime := 150\<rparr>)"
    by (simp add: sample_defs)
  have c: "conflicts morning (noon\<lparr>startTime := 150\<rparr>)"
    by (simp add: sample_defs route_defs conflicts_def)
  show ?thesis
    using h1 h2 h3 c conflicts_symmetric [OF h1 h2 h3] by blast
qed

text \<open>
  C8 as stated fails when one of the two has its end before its start. The admin route stores
  such a row; the candidate \<open>[150, 250)\<close> conflicts with the stored \<open>[300, 100]\<close> by the
  third branch of the \<^verbatim>\<open>OR\<close>, and with the two exchanged no branch holds.
\<close>

theorem conflicts_symmetric_counterexample:
  "adminUpdateBooking fleet admin ''b2'' (adminMove (Some ''v1'') 300 100) =
     (Admitted, fleet\<lparr>bookings := [morning, noon\<lparr>startTime := 300, endTime := 100\<rparr>]\<rparr>) \<and>
   vehicleId (morning\<lparr>startTime := 150, endTime := 250\<rparr>)
     = vehicleId (noon\<lparr>startTime := 300, endTime := 100\<rparr>) \<and>
   conflicts (morning\<lparr>startTime := 150, endTime := 250\<rparr>)
     (noon\<lparr>startTime := 300, endTime := 100\<rparr>) \<and>
   \<not> conflicts (noon\<lparr>startTime := 300, endTime := 100\<rparr>)
     (morning\<lparr>startTime := 150, endTime := 250\<rparr>)"
  by (simp add: sample_defs route_defs conflicts_def)

section \<open>Deleting a vehicle\<close>

text \<open>
  C9. \<^verbatim>\<open>DELETE /vehicles/:id\<close> refuses, with the store unchanged, whenever the vehicle has
  at least one booking (for an administrator the refusal carries the count). For an
  administrator and a vehicle that exists, the deletion succeeds exactly when the count is
  zero, and then removes the vehicle.
\<close>

theorem delete_vehicle_by_count:
  "(0 < bookingCount db i \<longrightarrow> (\<exists>f. adminDeleteVehicle db user i = (Rejected f, db))) \<and>
   (requireAdmin user \<and> 0 < bookingCount db i \<longrightarrow>
      adminDeleteVehicle db user i = (Rejected (VehicleHasBookings (bookingCount db i)), db)) \<and>
   (requireAdmin user \<and> findVehicle db i \<noteq> None \<longrightarrow>
      (bookingCount db i = 0 \<longrightarrow>
         adminDeleteVehicle db user i =
           (Admitted, db\<lparr>vehicles := filter (\<lambda>x. vid x \<noteq> i) (vehicles db)\<rparr>)) \<and>
      (fst (adminDeleteVehicle db user i) = Admitted \<longleftrightarrow> bookingCount db i = 0))"
  by (auto simp add: adminDeleteVehicle_def split: option.splits)

theorem delete_vehicle_by_count_witness:
  "requireAdmin admin \<and> bookingCount fleet ''v1'' = 2 \<and>
   adminDeleteVehicle fleet admin ''v1'' = (Rejected (VehicleHasBookings 2), fleet) \<and>
   bookingCount fleet ''v2'' = 0 \<and> findVehicle fleet ''v2'' \<noteq> None \<and>
   adminDeleteVehicle fleet admin ''v2'' = (Admitted, fleet\<lparr>vehicles := [van]\<rparr>)"
proof -
  have a: "requireAdmin admin"
    by (simp add: sample_defs requireAdmin_def ADMIN_EMAILS_def)
  have c1: "bookingCount fleet ''v1'' = 2" by (simp add: sample_defs bookingCount_def)
  have c2: "bookingCount fleet ''v2'' = 0" by (simp add: sample_defs bookingCount_def)
  have v2: "findVehicle fleet ''v2'' \<noteq> None" by (simp add: sample_defs findVehicle_def)
  have f: "fleet\<lparr>vehicles := filter (\<lambda>x. vid x \<noteq> ''v2'') (vehicles fleet)\<rparr>
             = fleet\<lparr>vehicles := [van]\<rparr>"
    by (simp add: sample_defs)
  show ?thesis
    using a c1 c2 v2 f
      delete_vehicle_by_count [where db = fleet and user = admin and i = "''v1''"]
      delete_vehicle_by_count [where db = fleet and user = admin and i = "''v2''"]
    by simp
qed

section \<open>The active flag\<close>

text \<open>
  C10. Booking admission never reads \<open>isActive\<close>. Rewriting the flags of the vehicles in any
  way changes neither the decision of creation or update nor the bookings they leave behind:
  the route run on the rewritten store gives the same decision, and the store it returns is
  the one returned on the original store with the same rewriting of the flags. In particular,
  when the vehicle of the request exists and is deactivated and the interval and past checks
  pass, a creation for which the conflict query finds nothing is admitted and appends the
  new booking, and so the owner's update is admitted and writes the request into the row.
\<close>

theorem isActive_not_consulted:
  "createBooking (db\<lparr>vehicles := map (\<lambda>x. x\<lparr>isActive := f x\<rparr>) (vehicles db)\<rparr>)
       user req now newId =
     (fst (createBooking db user req now newId),
      (snd (createBooking db user req now newId))
        \<lparr>vehicles := map (\<lambda>x. x\<lparr>isActive := f x\<rparr>)
                         (vehicles (snd (createBooking db user req now newId)))\<rparr>) \<and>
   updateBooking (db\<lparr>vehicles := map (\<lambda>x. x\<lparr>isActive := f x\<rparr>) (vehicles db)\<rparr>)
       user i req now =
     (fst (updateBooking db user i req now),
      (snd (updateBooking db user i req now))
        \<lparr>vehicles := map (\<lambda>x. x\<lparr>isActive := f x\<rparr>)
                         (vehicles (snd (updateBooking db user i req now)))\<rparr>) \<and>
   (findVehicle db (reqVehicleId req) = Some vh \<and> \<not> isActive vh \<and>
    reqStartTime req < reqEndTime req \<and> now \<le> reqStartTime req \<longrightarrow>
      (\<not> checkBookingConflict db (reqVehicleId req) (reqStartTime req) (reqEndTime req) None \<longrightarrow>
         createBooking db user req now newId =
           (Admitted,
            db\<lparr>bookings := bookings db @
               [\<lparr>bid = newId, userId = uid user, vehicleId = reqVehicleId req,
                 startTime = reqStartTime req, endTime = reqEndTime req,
                 title = orNull (reqTitle req),
                 description = orNull (reqDescription req)\<rparr>]\<rparr>)) \<and>
      (findBooking db i = Some b \<and> userId b = uid user \<and>
       \<not> checkBookingConflict db (reqVehicleId req) (reqStartTime req) (reqEndTime req) (Some i) \<longrightarrow>
         updateBooking db user i req now =
           (Admitted,
            db\<lparr>bookings := map (\<lambda>b. if bid b = i then applyRequest req b else b)
                                (bookings db)\<rparr>)))"
proof (intro conjI)
  let ?db' = "db\<lparr>vehicles := map (\<lambda>x. x\<lparr>isActive := f x\<rparr>) (vehicles db)\<rparr>"
  have v: "findVehicle ?db' (reqVehicleId req) = None \<longleftrightarrow> findVehicle db (reqVehicleId req) = None"
    by (rule findVehicle_flags)
  show "createBooking ?db' user req now newId =
     (fst (createBooking db user req now newId),
      (snd (createBooking db user req now newId))
        \<lparr>vehicles := map (\<lambda>x. x\<lparr>isActive := f x\<rparr>)
                         (vehicles (snd (createBooking db user req now newId)))\<rparr>)"
    using v by (auto simp add: createBooking_def Let_def checkBookingConflict_vehicles
        split: option.splits)
  show "updateBooking ?db' user i req now =
     (fst (updateBooking db user i req now),
      (snd (updateBooking db user i req now))
        \<lparr>vehicles := map (\<lambda>x. x\<lparr>isActive := f x\<rparr>)
                         (vehicles (snd (updateBooking db user i req now)))\<rparr>)"
    using v by (auto simp add: updateBooking_def Let_def checkBookingConflict_vehicles
        findBooking_vehicles split: option.splits)
  show "findVehicle db (reqVehicleId req) = Some vh \<and> \<not> isActive vh \<and>
    reqStartTime req < reqEndTime req \<and> now \<le> reqStartTime req \<longrightarrow>
      (\<not> checkBookingConflict db (reqVehicleId req) (reqStartTime req) (reqEndTime req) None \<longrightarrow>
         createBooking db user req now newId =
           (Admitted,
            db\<lparr>bookings := bookings db @
               [\<lparr>bid = newId, userId = uid user, vehicleId = reqVehicleId req,
                 startTime = reqStartTime req, endTime = reqEndTime req,
                 title = orNull (reqTitle req),
                 description = orNull (reqDescription req)\<rparr>]\<rparr>)) \<and>
      (findBooking db i = Some b \<and> userId b = uid user \<and>
       \<not> checkBookingConflict db (reqVehicleId req) (reqStartTime req) (reqEndTime req) (Some i) \<longrightarrow>
         updateBooking db user i req now =
           (Admitted,
            db\<lparr>bookings := map (\<lambda>b. if bid b = i then applyRequest req b else b)
                                (bookings db)\<rparr>))"
    by (auto simp add: createBooking_def updateBooking_def Let_def)
qed

theorem isActive_not_consulted_witness:
  "findVehicle fleet ''v2'' = Some parkedTruck \<and> \<not> isActive parkedTruck \<and>
   \<not> checkBookingConflict fleet ''v2'' 400 500 None \<and>
   createBooking fleet bob (request ''v2'' 400 500) 0 ''b3'' =
     (Admitted,
      fleet\<lparr>bookings := [morning, noon,
         \<lparr>bid = ''b3'', userId = ''u2'', vehicleId = ''v2'', startTime = 400, endTime = 500,
          title = None, description = None\<rparr>]\<rparr>) \<and>
   findBooking fleet ''b2'' = Some noon \<and> userId noon = uid bob \<and>
   \<not> checkBookingConflict fleet ''v2'' 400 500 (Some ''b2'') \<and>
   updateBooking fleet bob ''b2'' (request ''v2'' 400 500) 0 =
     (Admitted,
      fleet\<lparr>bookings := [morning,
         noon\<lparr>vehicleId := ''v2'', startTime := 400, endTime := 500, title := None,
              description := None\<rparr>]\<rparr>)"
proof -
  have h1: "findVehicle fleet ''v2'' = Some parkedTruck"
    by (simp add: sample_defs findVehicle_def)
  have h2: "\<not> isActive parkedTruck" by (simp add: sample_defs)
  have h3: "\<not> checkBookingConflict fleet ''v2'' 400 500 None"
    by (simp add: sample_defs checkBookingConflict_def conflictWhere_def)
  have h4: "findBooking fleet ''b2'' = Some noon"
    by (simp add: sample_defs findBooking_def)
  have h5: "userId noon = uid bob" by (simp add: sample_defs)
  have h6: "\<not> checkBookingConflict fleet ''v2'' 400 500 (Some ''b2'')"
    by (simp add: sample_defs checkBookingConflict_def conflictWhere_def)
  have n: "bookings fleet = [morning, noon]" "bid morning = ''b1''" "bid noon = ''b2''"
    "uid bob = ''u2''"
    by (simp_all add: sample_defs)
  show ?thesis
    using h1 h2 h3 h4 h5 h6
      isActive_not_consulted [where db = fleet and user = bob and req = "request ''v2'' 400 500"
        and now = 0 and newId = "''b3''" and i = "''b2''" and vh = parkedTruck and b = noon]
    by (simp add: request_def n orNull_def applyRequest_def)
qed

end
